theory Spec2Isabelle
  imports Main "HOL-Library.Sublist"
begin

section \<open>Python values the script relies on\<close>

text \<open>
  The exceptions that can travel through \<^verbatim>\<open>fix_mapfile_time.py\<close>. \<open>KeyboardInterrupt\<close>
  and \<open>SystemExit\<close> are the two that are not subclasses of \<open>Exception\<close>; every other
  constructor is one.
\<close>

datatype exn =
    AssertionError
  | AttributeError
  | IndexError
  | KeyError string
  | TypeError
  | ValueError
  | ImportError
  | MapServerError
  | URLError
  | ParseError
  | XPathEvalError
  | KeyboardInterrupt
  | SystemExit nat
  | OtherError string

text \<open>
  Truth value of an optional string argument (\<open>None\<close> and the empty string are false),
  as \<^verbatim>\<open>assert (outFile or outFolder)\<close> and \<^verbatim>\<open>if outFolder:\<close> read it.
\<close>

fun truthy :: "string option \<Rightarrow> bool" where
  "truthy None = False"
| "truthy (Some s) = (s \<noteq> [])"

text \<open>The string held by an argument that is known to be true.\<close>

fun str_of :: "string option \<Rightarrow> string" where
  "str_of None = []"
| "str_of (Some s) = s"

subsection \<open>The string formatting operator\<close>

text \<open>
  \<^verbatim>\<open>format % args\<close> of Python 2 for the fragment the format strings of the script use:
  the right operand is a dictionary with string values (\<open>Mapping\<close>) or one string
  (\<open>Single\<close>); a specifier is \<^verbatim>\<open>%\<close>, an optional \<^verbatim>\<open>(key)\<close> with balanced parentheses,
  flags out of \<^verbatim>\<open>-+ #0\<close>, and a conversion character. The interpreter's order is kept:
  the key is looked up when its closing parenthesis is read (\<open>KeyError\<close>), the argument
  is fetched before the conversion character is examined, a number conversion of a
  string is a \<open>TypeError\<close>, an unknown conversion character or a format that ends inside
  a specifier is a \<open>ValueError\<close>, and a single argument that no specifier consumed is
  a \<open>TypeError\<close>. Width, precision, length modifiers, \<^verbatim>\<open>%r\<close> and an unkeyed specifier
  against a dictionary occur in none of the script's format strings; the model
  answers them with \<open>ValueError\<close>.
\<close>

datatype fmt_args = Mapping "(string \<times> string) list" | Single string

datatype fmt_mode = Copy | Key nat string | Spec bool "string option"

definition is_flag :: "char \<Rightarrow> bool" where
  "is_flag c = (c \<in> set ''-+ #0'')"

definition convert :: "char \<Rightarrow> string \<Rightarrow> exn + string" where
  "convert c v =
     (if c = CHR ''s'' then Inr v
      else if c \<in> set ''diuoxXeEfFgG'' then Inl TypeError
      else if c = CHR ''c'' then (if length v = 1 then Inr v else Inl TypeError)
      else Inl ValueError)"

fun fmt :: "fmt_mode \<Rightarrow> fmt_args \<Rightarrow> bool \<Rightarrow> string \<Rightarrow> string \<Rightarrow> exn + string" where
  "fmt Copy a used acc [] =
     (case a of Mapping d \<Rightarrow> Inr acc
      | Single s \<Rightarrow> if used then Inr acc else Inl TypeError)"
| "fmt Copy a used acc (c # cs) =
     (if c = CHR ''%'' then fmt (Spec True None) a used acc cs
      else fmt Copy a used (acc @ [c]) cs)"
| "fmt (Key pc k) a used acc [] = Inl ValueError"
| "fmt (Key pc k) a used acc (c # cs) =
     (if c = CHR '')'' \<and> pc = 1 then
        (case a of
           Mapping d \<Rightarrow>
             (case map_of d k of
                None \<Rightarrow> Inl (KeyError k)
              | Some v \<Rightarrow> fmt (Spec False (Some v)) a used acc cs)
         | Single s \<Rightarrow> Inl TypeError)
      else fmt (Key (if c = CHR '')'' then pc - 1 else if c = CHR ''('' then pc + 1 else pc)
                    (k @ [c])) a used acc cs)"
| "fmt (Spec first v) a used acc [] = Inl ValueError"
| "fmt (Spec first v) a used acc (c # cs) =
     (if first \<and> c = CHR ''('' then
        (case a of
           Mapping d \<Rightarrow> fmt (Key 1 []) a used acc cs
         | Single s \<Rightarrow> Inl TypeError)
      else if is_flag c then fmt (Spec False v) a used acc cs
      else if c = CHR ''%'' then fmt Copy a used (acc @ ''%'') cs
      else
        (case v of
           Some s \<Rightarrow>
             (case convert c s of
                Inl e \<Rightarrow> Inl e
              | Inr t \<Rightarrow> fmt Copy a used (acc @ t) cs)
         | None \<Rightarrow>
             (case a of
                Mapping d \<Rightarrow> Inl ValueError
              | Single s \<Rightarrow>
                  if used then Inl TypeError
                  else (case convert c s of
                          Inl e \<Rightarrow> Inl e
                        | Inr t \<Rightarrow> fmt Copy a True (acc @ t) cs))))"

definition py_format :: "string \<Rightarrow> fmt_args \<Rightarrow> exn + string" where
  "py_format f a = fmt Copy a False [] f"

subsection \<open>\<^verbatim>\<open>str.replace\<close>\<close>

text \<open>
  \<^verbatim>\<open>s.replace(old, new)\<close>: the occurrences of \<open>old\<close> are found from the left and do not
  overlap; an empty \<open>old\<close> matches before every character and at the end.
\<close>

function str_replace :: "string \<Rightarrow> string \<Rightarrow> string \<Rightarrow> string" where
  "str_replace old new [] = (if old = [] then new else [])"
| "str_replace old new (c # cs) =
     (if old = [] then new @ c # str_replace old new cs
      else if prefix old (c # cs) then new @ str_replace old new (drop (length old) (c # cs))
      else c # str_replace old new cs)"
  by pat_completeness auto
termination
  by (relation "measure (\<lambda>(old, new, s). length s)") auto

subsection \<open>\<^verbatim>\<open>os.path\<close> on a POSIX system\<close>

text \<open>
  The script exits with \<^verbatim>\<open>os.EX_USAGE\<close> and \<^verbatim>\<open>os.EX_OK\<close>, which exist on POSIX systems
  only, so \<^verbatim>\<open>os.path\<close> is \<^verbatim>\<open>posixpath\<close>.
  \<^verbatim>\<open>basename(p)\<close> is \<^verbatim>\<open>p[p.rfind('/') + 1:]\<close>; \<^verbatim>\<open>join(a, *p)\<close> restarts at a component that
  begins with a slash and otherwise appends, with a slash in between unless the path so
  far is empty or ends with one.
\<close>

fun rfind :: "string \<Rightarrow> char \<Rightarrow> int" where
  "rfind [] c = - 1"
| "rfind (x # xs) c =
     (let r = rfind xs c in if 0 \<le> r then r + 1 else if x = c then 0 else - 1)"

definition os_path_basename :: "string \<Rightarrow> string" where
  "os_path_basename p = (let i = rfind p CHR ''/'' + 1 in drop (nat i) p)"

definition join_step :: "string \<Rightarrow> string \<Rightarrow> string" where
  "join_step path b =
     (if prefix ''/'' b then b
      else if path = [] \<or> suffix ''/'' path then path @ b
      else path @ ''/'' @ b)"

definition os_path_join :: "string \<Rightarrow> string list \<Rightarrow> string" where
  "os_path_join a p = foldl join_step a p"

definition EX_OK :: nat where
  "EX_OK = 0"

definition EX_USAGE :: nat where
  "EX_USAGE = 64"

section \<open>The mapfile library\<close>

text \<open>
  Modelled from the spec: the types \<^verbatim>\<open>mapObj\<close> and \<^verbatim>\<open>layerObj\<close> of the \<^verbatim>\<open>mapscript\<close>
  library, which is not part of the repository. A layer has a name, a \<open>connection\<close>
  (a base URL string, possibly empty) and a mapping from metadata keys to metadata
  values; a mapfile is its layers, in order, and its mapfile-level settings, which the
  script never reads.
\<close>

record layerObj =
  name :: string
  connection :: string
  metadata :: "string \<rightharpoonup> string"

record mapObj =
  layers :: "layerObj list"
  settings :: "string list"

text \<open>
  What the variable \<^verbatim>\<open>layer\<close> of \<^verbatim>\<open>process\<close> can hold, and the object it is compared
  with: \<open>None\<close>, the type object \<^verbatim>\<open>types.NoneType\<close>, or a reference to a layer of the
  opened mapfile (its position: the layer object is shared with the mapfile, and a
  change made through the reference is a change of the mapfile that is saved later).
\<close>

datatype pyref = PyNone | NoneType | LayerRef nat

text \<open>\<^verbatim>\<open>==\<close> between two such values is identity.\<close>

definition py_eq :: "pyref \<Rightarrow> pyref \<Rightarrow> bool" where
  "py_eq a b = (a = b)"

text \<open>
  Modelled from the spec: \<^verbatim>\<open>getLayerByName\<close> (find layer by name within mapfile): the
  first layer with that name, \<open>None\<close> when there is none.
\<close>

definition getLayerByName :: "mapObj \<Rightarrow> string \<Rightarrow> pyref" where
  "getLayerByName m n =
     (case find (\<lambda>i. name (layers m ! i) = n) [0..<length (layers m)] of
        None \<Rightarrow> PyNone
      | Some i \<Rightarrow> LayerRef i)"

text \<open>
  Reading an attribute through the variable: \<open>None\<close> and a type object have neither
  \<open>connection\<close> nor \<open>name\<close>. A reference made by \<open>getLayerByName\<close> is always in range.
\<close>

definition deref :: "mapObj \<Rightarrow> pyref \<Rightarrow> exn + nat \<times> layerObj" where
  "deref m r =
     (case r of
        LayerRef i \<Rightarrow>
          if i < length (layers m) then Inr (i, layers m ! i)
          else Inl (OtherError ''stale layer reference'')
      | PyNone \<Rightarrow> Inl AttributeError
      | NoneType \<Rightarrow> Inl AttributeError)"

text \<open>Modelled from the spec: \<^verbatim>\<open>setMetaData\<close> (set a named string metadata entry).\<close>

definition setMetaData :: "mapObj \<Rightarrow> nat \<Rightarrow> string \<Rightarrow> string \<Rightarrow> mapObj" where
  "setMetaData m i k v =
     m\<lparr>layers := (layers m)[i := (layers m ! i)\<lparr>metadata := (metadata (layers m ! i))(k \<mapsto> v)\<rparr>]\<rparr>"

definition MDKEY :: string where
  "MDKEY = ''wms_timeextent''"

section \<open>The capabilities document and the XPath query\<close>

text \<open>
  A parsed document: text nodes and elements with a tag, attributes and children
  (comments and processing instructions play no part in the query). A node is
  addressed by the child positions that lead to it from the root element.
\<close>

datatype xml = Text string | Elem string "(string \<times> string) list" "xml list"

fun kids :: "xml \<Rightarrow> xml list" where
  "kids (Text s) = []"
| "kids (Elem t a ks) = ks"

fun node_at :: "xml \<Rightarrow> nat list \<Rightarrow> xml option" where
  "node_at t [] = Some t"
| "node_at t (i # p) = (if i < length (kids t) then node_at (kids t ! i) p else None)"

text \<open>Every node of the document, in document order (a node before its children).\<close>

fun paths :: "xml \<Rightarrow> nat list list"
  and paths_from :: "nat \<Rightarrow> xml list \<Rightarrow> nat list list" where
  "paths (Text s) = [[]]"
| "paths (Elem t a ks) = [] # paths_from 0 ks"
| "paths_from i [] = []"
| "paths_from i (k # ks) = map ((#) i) (paths k) @ paths_from (Suc i) ks"

text \<open>The string value of a node: its text, or the text of its descendants.\<close>

fun string_value :: "xml \<Rightarrow> string" where
  "string_value (Text s) = s"
| "string_value (Elem t a ks) = concat (map string_value ks)"

fun is_elem :: "string \<Rightarrow> xml \<Rightarrow> bool" where
  "is_elem n (Text s) = False"
| "is_elem n (Elem t a ks) = (t = n)"

fun is_text :: "xml \<Rightarrow> bool" where
  "is_text (Text s) = True"
| "is_text (Elem t a ks) = False"

fun attribute :: "xml \<Rightarrow> string \<Rightarrow> string option" where
  "attribute (Text s) n = None"
| "attribute (Elem t a ks) n = map_of a n"

text \<open>\<^verbatim>\<open>Layer[Name='N']\<close>: a \<open>Layer\<close> element with a \<open>Name\<close> child whose string value is \<open>N\<close>.\<close>

definition named_layer :: "string \<Rightarrow> xml \<Rightarrow> bool" where
  "named_layer n t =
     (is_elem ''Layer'' t \<and> (\<exists>k \<in> set (kids t). is_elem ''Name'' k \<and> string_value k = n))"

text \<open>\<^verbatim>\<open>Extent[@name='time']\<close>.\<close>

definition time_extent :: "xml \<Rightarrow> bool" where
  "time_extent t = (is_elem ''Extent'' t \<and> attribute t ''name'' = Some ''time'')"

definition holds_at :: "xml \<Rightarrow> (xml \<Rightarrow> bool) \<Rightarrow> nat list \<Rightarrow> bool" where
  "holds_at doc test p = (case node_at doc p of None \<Rightarrow> False | Some t \<Rightarrow> test t)"

text \<open>
  The axes of the query, as relations between the context node \<open>m\<close> and the selected
  node \<open>n\<close>.
\<close>

definition child_axis :: "nat list \<Rightarrow> nat list \<Rightarrow> bool" where
  "child_axis m n = (n \<noteq> [] \<and> butlast n = m)"

definition ancestor_or_self_axis :: "nat list \<Rightarrow> nat list \<Rightarrow> bool" where
  "ancestor_or_self_axis m n = prefix n m"

text \<open>
  One location step: from the node set \<open>S\<close>, the nodes on the axis of a member of \<open>S\<close>
  that pass the node test, as a node set again (no duplicates, document order).
\<close>

definition xpath_step ::
  "xml \<Rightarrow> (nat list \<Rightarrow> nat list \<Rightarrow> bool) \<Rightarrow> (xml \<Rightarrow> bool) \<Rightarrow> nat list list \<Rightarrow> nat list list" where
  "xpath_step doc axis test S =
     filter (\<lambda>n. holds_at doc test n \<and> (\<exists>m \<in> set S. axis m n)) (paths doc)"

text \<open>
  \<^verbatim>\<open>//Layer[Name='N']/ancestor-or-self::Layer/Extent[@name='time']/text()\<close>, for a name
  \<open>N\<close> without an apostrophe. \<^verbatim>\<open>//Layer[...]\<close> from the document node selects among all
  elements of the document, the root element included.
\<close>

definition time_extent_nodes :: "xml \<Rightarrow> string \<Rightarrow> nat list list" where
  "time_extent_nodes doc n =
     xpath_step doc child_axis is_text
       (xpath_step doc child_axis time_extent
          (xpath_step doc ancestor_or_self_axis (is_elem ''Layer'')
             (filter (holds_at doc (named_layer n)) (paths doc))))"

definition text_at :: "xml \<Rightarrow> nat list \<Rightarrow> string" where
  "text_at doc p = (case node_at doc p of Some (Text s) \<Rightarrow> s | _ \<Rightarrow> [])"

section \<open>The environment and the state of a run\<close>

text \<open>
  What the script reads from outside: \<open>capabilities\<close> is \<^verbatim>\<open>urllib2.urlopen\<close> followed by
  \<^verbatim>\<open>etree.parse\<close> (the document behind a URL, or the exception either call raises);
  \<open>xpath_engine\<close> evaluates an expression the model does not interpret (the layer name
  is pasted into the expression between apostrophes, so a name with an apostrophe
  gives some other expression, or none); \<open>ipython_embed\<close> is the outcome of
  \<^verbatim>\<open>import IPython; IPython.embed()\<close>: it returns, leaving the program's variables as they
  are, or raises. The last three are the strings of \<^verbatim>\<open>time.asctime()\<close> at the start and
  at the end and of the elapsed seconds.
\<close>

record env =
  capabilities :: "string \<Rightarrow> exn + xml"
  xpath_engine :: "string \<Rightarrow> xml \<Rightarrow> exn + string list"
  ipython_embed :: "exn option"
  asctime_start :: string
  asctime_end :: string
  total_seconds :: string

datatype level = INFO | WARNING | ERROR

datatype printed = Usage | Line string | ExceptionText exn | Traceback exn

text \<open>
  \<open>files\<close> are the files that parse as mapfiles, \<open>dirs\<close> the existing directories, \<open>log\<close>
  the records the logging module emitted (the level is \<open>INFO\<close>, so \<^verbatim>\<open>DEBUG\<close> calls emit
  nothing), \<open>stdout\<close> what was printed.
\<close>

record world =
  files :: "string \<rightharpoonup> mapObj"
  dirs :: "string set"
  log :: "(level \<times> string) list"
  stdout :: "printed list"

text \<open>\<^verbatim>\<open>os.path.isdir\<close>: the empty path names nothing.\<close>

definition os_path_isdir :: "world \<Rightarrow> string \<Rightarrow> bool" where
  "os_path_isdir w p = (p \<noteq> [] \<and> p \<in> dirs w)"

text \<open>
  Modelled from the spec: \<^verbatim>\<open>mapscript.mapObj(fileName)\<close> (parse mapfile from path; an error
  when the file is not a mapfile) and \<^verbatim>\<open>save\<close> (save mapfile to path, preserving all
  unrelated structure).
\<close>

definition mapscript_mapObj :: "world \<Rightarrow> string \<Rightarrow> exn + mapObj" where
  "mapscript_mapObj w f = (case files w f of None \<Rightarrow> Inl MapServerError | Some m \<Rightarrow> Inr m)"

definition save :: "mapObj \<Rightarrow> string \<Rightarrow> world \<Rightarrow> world" where
  "save m out w = w\<lparr>files := (files w)(out \<mapsto> m)\<rparr>"

definition emit :: "level \<Rightarrow> string \<Rightarrow> world \<Rightarrow> world" where
  "emit lv msg w = w\<lparr>log := log w @ [(lv, msg)]\<rparr>"

section \<open>The script\<close>

subsection \<open>\<^verbatim>\<open>updateWMStimeExtent\<close>\<close>

text \<open>Lines 118 to 120: the request URL, formatted from \<^verbatim>\<open>layer.connection\<close>.\<close>

definition getCapabilities :: "layerObj \<Rightarrow> exn + string" where
  "getCapabilities l =
     py_format ''%(URL)sSERVICE=WMS&VERSION=1.1.1&REQUEST=GetCapabilities''
       (Mapping [(''URL'', connection l)])"

text \<open>
  The query of lines 131 to 133 without the subscript: the expression is formatted from
  the layer's name and evaluated on the parsed document; the result is the list of the
  selected text nodes.
\<close>

definition time_extent_query :: "env \<Rightarrow> xml \<Rightarrow> string \<Rightarrow> exn + string list" where
  "time_extent_query env doc n =
     (case py_format ''//Layer[Name='%s']/ancestor-or-self::Layer/Extent[@name='time']/text()''
             (Single n) of
        Inl e \<Rightarrow> Inl e
      | Inr expr \<Rightarrow>
          if CHR 0x27 \<in> set n then xpath_engine env expr doc
          else Inr (map (text_at doc) (time_extent_nodes doc n)))"

text \<open>Line 135: \<^verbatim>\<open>strTimeExtent.replace('-', '')\<close>.\<close>

definition purge :: "string \<Rightarrow> string" where
  "purge t = str_replace ''-'' [] t"

text \<open>
  Lines 131 to 135: the first match (\<^verbatim>\<open>[0]\<close> of an empty list raises \<open>IndexError\<close>), with
  every \<^verbatim>\<open>-\<close> purged.
\<close>

definition strTimeExtent :: "env \<Rightarrow> xml \<Rightarrow> string \<Rightarrow> exn + string" where
  "strTimeExtent env doc n =
     (case time_extent_query env doc n of
        Inl e \<Rightarrow> Inl e
      | Inr [] \<Rightarrow> Inl IndexError
      | Inr (t # ts) \<Rightarrow> Inr (purge t))"

text \<open>
  The body of the \<^verbatim>\<open>try\<close> block (lines 131 to 142) for the layer at position \<open>i\<close>: the
  lookup, \<^verbatim>\<open>setMetaData\<close>, and the interactive shell. The mapfile is returned as it is
  when the block is left, also when it is left by an exception.
\<close>

definition try_block :: "env \<Rightarrow> mapObj \<Rightarrow> nat \<Rightarrow> xml \<Rightarrow> mapObj \<times> exn option" where
  "try_block env m i doc =
     (case strTimeExtent env doc (name (layers m ! i)) of
        Inl e \<Rightarrow> (m, Some e)
      | Inr v \<Rightarrow> (setMetaData m i MDKEY v, ipython_embed env))"

text \<open>
  The function: the request URL is formatted and the document fetched and parsed
  before the \<^verbatim>\<open>try\<close>; the bare \<^verbatim>\<open>except\<close> logs an error and raises
  what it caught again. The result is the mapfile with the layer as the function left
  it, the log, and the exception that leaves the function, if any.
\<close>

definition updateWMStimeExtent ::
  "env \<Rightarrow> mapObj \<Rightarrow> pyref \<Rightarrow> (level \<times> string) list \<Rightarrow>
     (mapObj \<times> (level \<times> string) list) \<times> exn option" where
  "updateWMStimeExtent env m layer lg =
     (case deref m layer of
        Inl e \<Rightarrow> ((m, lg), Some e)
      | Inr (i, l) \<Rightarrow>
          (case getCapabilities l of
             Inl e \<Rightarrow> ((m, lg), Some e)
           | Inr url \<Rightarrow>
               (case capabilities env url of
                  Inl e \<Rightarrow> ((m, lg), Some e)
                | Inr capabilitiesTree \<Rightarrow>
                    (case try_block env m i capabilitiesTree of
                       (m', None) \<Rightarrow> ((m', lg), None)
                     | (m', Some e) \<Rightarrow>
                         (case py_format
                                 ''Unable to locate dates in capabilities document at: %s''
                                 (Single (connection l)) of
                            Inl e' \<Rightarrow> ((m', lg), Some e')
                          | Inr msg \<Rightarrow> ((m', lg @ [(ERROR, msg)]), Some e))))))"

subsection \<open>\<^verbatim>\<open>process\<close>\<close>

text \<open>
  Lines 171 to 176: the two assertions (the script is run without \<^verbatim>\<open>-O\<close>, which would
  strip them), and the name of the output file.
\<close>

definition out_path :: "string \<Rightarrow> string option \<Rightarrow> string option \<Rightarrow> exn + string" where
  "out_path fileName outFile outFolder =
     (if \<not> (truthy outFile \<or> truthy outFolder) then Inl AssertionError
      else if truthy outFile \<and> truthy outFolder then Inl AssertionError
      else if truthy outFolder then
        Inr (os_path_join (str_of outFolder) [os_path_basename fileName])
      else Inr (str_of outFile))"

text \<open>
  \<^verbatim>\<open>locals()\<close> in \<^verbatim>\<open>process\<close>, restricted to the variables that hold strings (the
  others are \<^verbatim>\<open>original\<close>, \<^verbatim>\<open>layer\<close> and an \<^verbatim>\<open>outFolder\<close> that is \<open>None\<close>; no format
  string of \<^verbatim>\<open>process\<close> names them).
\<close>

definition process_locals ::
  "string \<Rightarrow> string \<Rightarrow> string \<Rightarrow> string option \<Rightarrow> (string \<times> string) list" where
  "process_locals fileName layerName outFile outFolder =
     [(''fileName'', fileName), (''layerName'', layerName), (''outFile'', outFile)]
     @ (case outFolder of None \<Rightarrow> [] | Some d \<Rightarrow> [(''outFolder'', d)])"

text \<open>
  The function, line by line: the output name, the mapfile, the layer, the comparison
  with \<^verbatim>\<open>types.NoneType\<close> and its warning, the update with its handler for
  \<open>MapServerError\<close> (whose message is the sum of a literal and of a formatted string:
  \<^verbatim>\<open>%\<close> binds tighter than \<^verbatim>\<open>+\<close>), and the save. An exception leaves the function
  with the files as they were.
\<close>

definition process ::
  "env \<Rightarrow> world \<Rightarrow> string \<Rightarrow> string \<Rightarrow> string option \<Rightarrow> string option \<Rightarrow> world \<times> exn option" where
  "process env w fileName layerName outFile outFolder =
     (case out_path fileName outFile outFolder of
        Inl e \<Rightarrow> (w, Some e)
      | Inr out \<Rightarrow>
          (case mapscript_mapObj w fileName of
             Inl e \<Rightarrow> (w, Some e)
           | Inr original \<Rightarrow>
               (let layer = getLayerByName original layerName in
                if py_eq layer NoneType then
                  (case py_format ''Unable to locate %(layerName) in file %(filepath)s''
                          (Mapping (process_locals fileName layerName out outFolder)) of
                     Inl e \<Rightarrow> (w, Some e)
                   | Inr msg \<Rightarrow> (emit WARNING msg w, None))
                else
                  (case updateWMStimeExtent env original layer (log w) of
                     ((m, lg), None) \<Rightarrow> (save m out (w\<lparr>log := lg\<rparr>), None)
                   | ((m, lg), Some MapServerError) \<Rightarrow>
                       (case py_format ''within file %(filepath)s''
                               (Mapping (process_locals fileName layerName out outFolder)) of
                          Inl e \<Rightarrow> (w\<lparr>log := lg\<rparr>, Some e)
                        | Inr t \<Rightarrow>
                            (save m out
                               (emit WARNING
                                  (''Unable to locate time metadata in layer %(layerName) '' @ t)
                                  (w\<lparr>log := lg\<rparr>)), None))
                   | ((m, lg), Some e) \<Rightarrow> (w\<lparr>log := lg\<rparr>, Some e)))))"

subsection \<open>\<^verbatim>\<open>main\<close> and the top level\<close>

text \<open>
  The parsed command line: \<open>SOURCE\<close> holds the names of the opened source files.
\<close>

record args =
  LAYER :: string
  SOURCE :: "string list"
  DEST :: string
  verbose :: bool

text \<open>The loop of \<^verbatim>\<open>main\<close>: an exception of \<^verbatim>\<open>process\<close> ends it.\<close>

fun process_each ::
  "env \<Rightarrow> world \<Rightarrow> string \<Rightarrow> string option \<Rightarrow> string option \<Rightarrow> string list \<Rightarrow>
     world \<times> exn option" where
  "process_each env w layerName outfile folder [] = (w, None)"
| "process_each env w layerName outfile folder (h # hs) =
     (case process env w h layerName outfile folder of
        (w', Some e) \<Rightarrow> (w', Some e)
      | (w', None) \<Rightarrow> process_each env w' layerName outfile folder hs)"

text \<open>Lines 206 to 215: where \<^verbatim>\<open>main\<close> sends the output.\<close>

definition folder_of :: "world \<Rightarrow> string \<Rightarrow> string option" where
  "folder_of w destination = (if os_path_isdir w destination then Some destination else None)"

definition outfile_of :: "world \<Rightarrow> string \<Rightarrow> string option" where
  "outfile_of w destination = (if os_path_isdir w destination then None else Some destination)"

definition main :: "env \<Rightarrow> world \<Rightarrow> args \<Rightarrow> world \<times> exn option" where
  "main env w a =
     process_each env w (LAYER a) (outfile_of w (DEST a)) (folder_of w (DEST a)) (SOURCE a)"

text \<open>
  The \<^verbatim>\<open>try\<close> block of the top level after \<^verbatim>\<open>parse_args\<close>. It always ends with an
  exception: the \<open>SystemExit\<close> of one of the two \<^verbatim>\<open>sys.exit\<close> calls, or what \<^verbatim>\<open>main\<close>
  raised.
\<close>

definition toplevel_try :: "env \<Rightarrow> world \<Rightarrow> args \<Rightarrow> world \<times> exn" where
  "toplevel_try env w a =
     (if 1 < length (SOURCE a) \<and> \<not> os_path_isdir w (DEST a) then
        (w\<lparr>stdout := stdout w @ [Usage]\<rparr>, SystemExit EX_USAGE)
      else
        (let w1 = (if verbose a then emit INFO (asctime_start env) w else w) in
         case main env w1 a of
           (w2, Some e) \<Rightarrow> (w2, e)
         | (w2, None) \<Rightarrow>
             if verbose a then
               (case py_format ''TOTAL TIME IN SECONDS: %s'' (Single (total_seconds env)) of
                  Inl e \<Rightarrow> (emit INFO (asctime_end env) w2, e)
                | Inr msg \<Rightarrow> (emit INFO msg (emit INFO (asctime_end env) w2), SystemExit EX_OK))
             else (w2, SystemExit EX_OK)))"

text \<open>
  How the run ends: with an exit status, or with an exception that nothing caught.
\<close>

datatype outcome = Exit nat | Uncaught exn

text \<open>
  The handlers of the top level: \<open>KeyboardInterrupt\<close> and \<open>SystemExit\<close> are raised
  again (the interpreter turns a \<open>SystemExit\<close> into the exit status), any other
  exception is printed and the run exits with status 1.
\<close>

definition script :: "env \<Rightarrow> world \<Rightarrow> args \<Rightarrow> world \<times> outcome" where
  "script env w a =
     (case toplevel_try env w a of
        (w', KeyboardInterrupt) \<Rightarrow> (w', Uncaught KeyboardInterrupt)
      | (w', SystemExit n) \<Rightarrow> (w', Exit n)
      | (w', e) \<Rightarrow>
          (w'\<lparr>stdout := stdout w' @
                 [Line ''ERROR, UNEXPECTED EXCEPTION'', ExceptionText e, Traceback e]\<rparr>,
           Exit 1))"

section \<open>The lookup in the words of the specification\<close>

text \<open>
  The description to compare the query with: \<open>x\<close> is a text node, its parent is an
  \<open>Extent\<close> element named \<open>time\<close>, and the parent of that is a \<open>Layer\<close> element which is
  a layer with the requested name or one of its ancestors.
\<close>

definition extent_text :: "xml \<Rightarrow> string \<Rightarrow> nat list \<Rightarrow> bool" where
  "extent_text doc n x =
     (2 \<le> length x \<and> holds_at doc is_text x \<and> holds_at doc time_extent (butlast x)
      \<and> holds_at doc (is_elem ''Layer'') (butlast (butlast x))
      \<and> (\<exists>r \<in> set (paths doc). prefix (butlast (butlast x)) r \<and> holds_at doc (named_layer n) r))"

text \<open>An \<open>Extent\<close> element named \<open>time\<close> of a layer with the requested name itself.\<close>

definition own_time_extent :: "xml \<Rightarrow> string \<Rightarrow> nat list \<Rightarrow> bool" where
  "own_time_extent doc n e =
     (e \<noteq> [] \<and> holds_at doc time_extent e \<and> holds_at doc (named_layer n) (butlast e))"

section \<open>Concrete inputs\<close>

text \<open>
  Two layers and two mapfiles: \<open>a_map\<close> holds the layer \<open>NDVI\<close>, whose connection is a stub
  server; \<open>roads_map\<close> does not.
\<close>

definition ndvi_layer :: layerObj where
  "ndvi_layer = \<lparr>name = ''NDVI'', connection = ''http://stub/wms?'', metadata = Map.empty\<rparr>"

definition roads_layer :: layerObj where
  "roads_layer =
     \<lparr>name = ''roads'', connection = '''', metadata = [''wms_title'' \<mapsto> ''Roads'']\<rparr>"

definition a_map :: mapObj where
  "a_map = \<lparr>layers = [roads_layer, ndvi_layer], settings = [''NAME demo'']\<rparr>"

definition roads_map :: mapObj where
  "roads_map = \<lparr>layers = [roads_layer], settings = [''NAME roads only'']\<rparr>"

text \<open>
  Capabilities documents: the one of the specification's end-to-end example; one without
  any \<open>Extent\<close>; one whose outer layer has an empty \<open>Extent\<close> named \<open>time\<close>; one whose outer
  layer carries the time extent for the layer inside it.
\<close>

definition ndvi_capabilities :: xml where
  "ndvi_capabilities =
     Elem ''Layer'' []
       [Elem ''Name'' [] [Text ''NDVI''],
        Elem ''Extent'' [(''name'', ''time'')] [Text ''2000-02-18,2000-03-06'']]"

definition no_extent_capabilities :: xml where
  "no_extent_capabilities =
     Elem ''Layer'' [] [Elem ''Title'' [] [Text ''All''],
       Elem ''Layer'' [] [Elem ''Name'' [] [Text ''NDVI'']]]"

definition empty_extent_capabilities :: xml where
  "empty_extent_capabilities =
     Elem ''Layer'' [] [Elem ''Extent'' [(''name'', ''time'')] [],
       Elem ''Layer'' [] [Elem ''Name'' [] [Text ''NDVI'']]]"

definition cascade_capabilities :: xml where
  "cascade_capabilities =
     Elem ''Layer'' [] [Elem ''Title'' [] [Text ''All''],
       Elem ''Layer'' [] [Elem ''Name'' [] [Text ''NDVI'']],
       Elem ''Extent'' [(''name'', ''time'')] [Text ''2000-02-18,2000-03-06'']]"

text \<open>
  The stub server answers the request URL of the layer \<open>NDVI\<close> with the given document;
  the interactive shell returns.
\<close>

definition stub_env :: "xml \<Rightarrow> env" where
  "stub_env doc =
     \<lparr>capabilities =
        (\<lambda>u. if u = ''http://stub/wms?SERVICE=WMS&VERSION=1.1.1&REQUEST=GetCapabilities''
             then Inr doc else Inl URLError),
      xpath_engine = (\<lambda>e d. Inl XPathEvalError),
      ipython_embed = None,
      asctime_start = ''Tue Jan  1 00:00:00 2013'',
      asctime_end = ''Tue Jan  1 00:00:01 2013'',
      total_seconds = ''1.0''\<rparr>"

text \<open>
  The same server on a machine where \<^verbatim>\<open>import IPython\<close> fails (the script lists only
  \<^verbatim>\<open>lxml\<close> and \<^verbatim>\<open>mapscript\<close> as requirements beyond the standard library).
\<close>

definition no_ipython_env :: "xml \<Rightarrow> env" where
  "no_ipython_env doc = (stub_env doc)\<lparr>ipython_embed := Some ImportError\<rparr>"

text \<open>A file system with the two mapfiles and one directory.\<close>

definition disk :: world where
  "disk = \<lparr>files = [''a.map'' \<mapsto> a_map, ''r.map'' \<mapsto> roads_map], dirs = {''outdir''},
           log = [], stdout = []\<rparr>"

section \<open>Properties of the string operations\<close>

lemma str_replace_char: "str_replace [c] [] s = filter (\<lambda>x. x \<noteq> c) s"
  by (induction s) auto

text \<open>
  C4: for every string \<open>s\<close>, the normalization of the time extent returns \<open>s\<close> with every
  \<^verbatim>\<open>-\<close> removed and every other character (commas included) kept in place; so the
  result never contains a \<^verbatim>\<open>-\<close>, and a string without \<^verbatim>\<open>-\<close> is returned unchanged.
\<close>

theorem purge_removes_every_dash:
  "purge s = filter (\<lambda>c. c \<noteq> CHR ''-'') s
   \<and> CHR ''-'' \<notin> set (purge s)
   \<and> (CHR ''-'' \<notin> set s \<longrightarrow> purge s = s)"
proof -
  have eq: "purge s = filter (\<lambda>c. c \<noteq> CHR ''-'') s"
    unfolding purge_def by (rule str_replace_char)
  have "CHR ''-'' \<notin> set s \<Longrightarrow> filter (\<lambda>c. c \<noteq> CHR ''-'') s = s"
    by (induction s) auto
  with eq show ?thesis by auto
qed

theorem purge_removes_every_dash_witness:
  "CHR ''-'' \<notin> set ''20000218,20000306''
   \<and> purge ''20000218,20000306'' = ''20000218,20000306''
   \<and> purge ''2000-02-18,2000-03-06'' = ''20000218,20000306''"
  using purge_removes_every_dash [of "''20000218,20000306''"]
    purge_removes_every_dash [of "''2000-02-18,2000-03-06''"]
  by simp

text \<open>The format strings of the script, evaluated for arbitrary arguments.\<close>

lemma format_request_url:
  "getCapabilities l =
     Inr (connection l @ ''SERVICE=WMS&VERSION=1.1.1&REQUEST=GetCapabilities'')"
  by (simp add: getCapabilities_def py_format_def convert_def is_flag_def)

lemma format_error_message:
  "py_format ''Unable to locate dates in capabilities document at: %s'' (Single c)
     = Inr (''Unable to locate dates in capabilities document at: '' @ c)"
  by (simp add: py_format_def convert_def is_flag_def)

lemma xpath_expression:
  "py_format ''//Layer[Name='%s']/ancestor-or-self::Layer/Extent[@name='time']/text()'' (Single n)
     = Inr (''//Layer[Name='' @ CHR 0x27 # n
            @ CHR 0x27 # '']/ancestor-or-self::Layer/Extent[@name='time']/text()'')"
  by (simp add: py_format_def convert_def is_flag_def)

text \<open>
  Neither warning of \<^verbatim>\<open>process\<close> can be formatted: \<^verbatim>\<open>%(layerName) i\<close> is an integer
  conversion (blank flag, \<^verbatim>\<open>i\<close>) of a string, and \<^verbatim>\<open>locals()\<close> has no \<^verbatim>\<open>filepath\<close>.
\<close>

lemma format_layer_warning:
  "py_format ''Unable to locate %(layerName) in file %(filepath)s''
     (Mapping (process_locals f n out d)) = Inl TypeError"
  by (simp add: py_format_def convert_def is_flag_def process_locals_def)

lemma format_time_warning:
  "py_format ''within file %(filepath)s'' (Mapping (process_locals f n out d))
     = Inl (KeyError ''filepath'')"
  by (cases d) (simp_all add: py_format_def convert_def is_flag_def process_locals_def)

text \<open>
  C9: for every layer, the request URL is the layer's connection string followed by
  \<^verbatim>\<open>SERVICE=WMS&VERSION=1.1.1&REQUEST=GetCapabilities\<close>; the connection string is copied
  as it is, whatever characters it holds, and formatting never fails.
\<close>

theorem request_url:
  "getCapabilities l =
     Inr (connection l @ ''SERVICE=WMS&VERSION=1.1.1&REQUEST=GetCapabilities'')"
  by (rule format_request_url)

section \<open>The output path\<close>

lemmas example_defs =
  disk_def a_map_def roads_map_def ndvi_layer_def roads_layer_def stub_env_def

lemmas process_defs =
  process_def out_path_def mapscript_mapObj_def getLayerByName_def py_eq_def
  updateWMStimeExtent_def deref_def getCapabilities_def py_format_def convert_def is_flag_def
  try_block_def save_def emit_def setMetaData_def process_locals_def

lemmas script_defs =
  script_def toplevel_try_def main_def folder_of_def outfile_of_def os_path_isdir_def
  EX_OK_def EX_USAGE_def os_path_join_def join_step_def os_path_basename_def suffix_to_prefix

lemma rfind_ge: "- 1 \<le> rfind p c"
  by (induction p) (auto simp: Let_def)

lemma rfind_drop: "c \<notin> set (drop (nat (rfind p c + 1)) p)"
proof (induction p)
  case Nil
  then show ?case by simp
next
  case (Cons x xs)
  show ?case
  proof (cases "0 \<le> rfind xs c")
    case True
    then have "nat (rfind xs c + 1 + 1) = Suc (nat (rfind xs c + 1))" by simp
    with True Cons show ?thesis by (simp add: Let_def)
  next
    case False
    with rfind_ge [of xs c] have r: "rfind xs c = - 1" by simp
    with Cons have "c \<notin> set xs" by simp
    with r show ?thesis by (simp add: Let_def)
  qed
qed

lemma basename_no_slash: "CHR ''/'' \<notin> set (os_path_basename p)"
  unfolding os_path_basename_def Let_def by (rule rfind_drop)

lemma join_basename:
  "os_path_join d [os_path_basename p] =
     (if d = [] \<or> suffix ''/'' d then d @ os_path_basename p
      else d @ ''/'' @ os_path_basename p)"
proof -
  have "\<not> prefix ''/'' (os_path_basename p)"
    using basename_no_slash [of p] by (cases "os_path_basename p") auto
  then show ?thesis by (simp add: os_path_join_def join_step_def)
qed

text \<open>The lookup on the four example documents.\<close>

lemma ndvi_nodes: "time_extent_nodes ndvi_capabilities ''NDVI'' = [[1, 0]]"
  by code_simp

lemma no_extent_nodes: "time_extent_nodes no_extent_capabilities ''NDVI'' = []"
  by code_simp

lemma empty_extent_nodes: "time_extent_nodes empty_extent_capabilities ''NDVI'' = []"
  by code_simp

lemma cascade_nodes: "time_extent_nodes cascade_capabilities ''NDVI'' = [[2, 0]]"
  by code_simp

lemma strTimeExtent_plain:
  "CHR 0x27 \<notin> set n \<Longrightarrow>
   strTimeExtent env doc n =
     (case time_extent_nodes doc n of
        [] \<Rightarrow> Inl IndexError
      | x # xs \<Rightarrow> Inr (purge (text_at doc x)))"
  by (simp add: strTimeExtent_def time_extent_query_def xpath_expression split: list.splits)

lemma ndvi_value: "strTimeExtent env ndvi_capabilities ''NDVI'' = Inr ''20000218,20000306''"
proof -
  have "text_at ndvi_capabilities [1, 0] = ''2000-02-18,2000-03-06''"
    by (simp add: text_at_def ndvi_capabilities_def)
  then show ?thesis by (simp add: strTimeExtent_plain ndvi_nodes purge_def)
qed

lemma no_extent_value: "strTimeExtent env no_extent_capabilities ''NDVI'' = Inl IndexError"
  by (simp add: strTimeExtent_plain no_extent_nodes)

lemma cascade_value:
  "strTimeExtent env cascade_capabilities ''NDVI'' = Inr ''20000218,20000306''"
proof -
  have "text_at cascade_capabilities [2, 0] = ''2000-02-18,2000-03-06''"
    by (simp add: text_at_def cascade_capabilities_def)
  then show ?thesis by (simp add: strTimeExtent_plain cascade_nodes purge_def)
qed

text \<open>With one source file the loop of \<^verbatim>\<open>main\<close> is one call of \<^verbatim>\<open>process\<close>.\<close>

lemma process_each_single:
  "process_each env w l outfile folder [h] = process env w h l outfile folder"
  by (cases "process env w h l outfile folder") (auto split: option.splits)

text \<open>
  C8: for every invocation whose \<open>DEST\<close> is an existing directory, \<^verbatim>\<open>main\<close> passes
  \<open>DEST\<close> as the output folder for every source file, and the output path that
  \<^verbatim>\<open>process\<close> resolves for a source file is
  \<^verbatim>\<open>os.path.join(DEST, os.path.basename(source))\<close>: \<open>DEST\<close>, a slash unless \<open>DEST\<close> ends
  with one, and the base name of the source.
\<close>

theorem directory_output_path:
  assumes "os_path_isdir w (DEST a)"
  shows "main env w a = process_each env w (LAYER a) None (Some (DEST a)) (SOURCE a)
         \<and> out_path src None (Some (DEST a))
           = Inr (os_path_join (DEST a) [os_path_basename src])
         \<and> os_path_join (DEST a) [os_path_basename src]
           = (if suffix ''/'' (DEST a) then DEST a @ os_path_basename src
              else DEST a @ ''/'' @ os_path_basename src)"
proof -
  from assms have ne: "DEST a \<noteq> []" by (simp add: os_path_isdir_def)
  from assms have "main env w a = process_each env w (LAYER a) None (Some (DEST a)) (SOURCE a)"
    by (simp add: main_def outfile_of_def folder_of_def)
  moreover from ne have "out_path src None (Some (DEST a))
      = Inr (os_path_join (DEST a) [os_path_basename src])"
    by (simp add: out_path_def)
  moreover from ne have "os_path_join (DEST a) [os_path_basename src]
           = (if suffix ''/'' (DEST a) then DEST a @ os_path_basename src
              else DEST a @ ''/'' @ os_path_basename src)"
    by (simp add: join_basename)
  ultimately show ?thesis by simp
qed

theorem directory_output_path_witness:
  "os_path_isdir disk ''outdir''
   \<and> main (stub_env ndvi_capabilities) disk
       \<lparr>LAYER = ''NDVI'', SOURCE = [''/tmp/some/a.map'', ''r.map''], DEST = ''outdir'',
        verbose = False\<rparr>
     = process_each (stub_env ndvi_capabilities) disk ''NDVI'' None (Some ''outdir'')
         [''/tmp/some/a.map'', ''r.map'']
   \<and> out_path ''/tmp/some/a.map'' None (Some ''outdir'') = Inr ''outdir/a.map''"
proof -
  let ?a = "\<lparr>LAYER = ''NDVI'', SOURCE = [''/tmp/some/a.map'', ''r.map''], DEST = ''outdir'',
             verbose = False\<rparr>"
  have d: "os_path_isdir disk (DEST ?a)" by (simp add: os_path_isdir_def disk_def)
  have "os_path_basename ''/tmp/some/a.map'' = ''a.map''"
    by (simp add: os_path_basename_def Let_def)
  with d directory_output_path [OF d, of "stub_env ndvi_capabilities" "''/tmp/some/a.map''"]
  show ?thesis by (simp add: suffix_to_prefix)
qed

text \<open>
  A run with exactly one source file whose \<open>DEST\<close> is an existing directory: the output
  goes to \<^verbatim>\<open>outdir/a.map\<close>, not to the literal \<open>DEST\<close>, and the run ends with status 0.
\<close>

theorem single_source_into_directory:
  "out_path ''a.map'' (outfile_of disk ''outdir'') (folder_of disk ''outdir'')
     = Inr ''outdir/a.map''
   \<and> ''outdir/a.map'' \<noteq> ''outdir''
   \<and> script (stub_env ndvi_capabilities) disk
       \<lparr>LAYER = ''NDVI'', SOURCE = [''a.map''], DEST = ''outdir'', verbose = False\<rparr>
     = (disk\<lparr>files := (files disk)(''outdir/a.map'' \<mapsto>
            a_map\<lparr>layers := [roads_layer,
                    ndvi_layer\<lparr>metadata := [''wms_timeextent'' \<mapsto> ''20000218,20000306'']\<rparr>]\<rparr>)\<rparr>,
        Exit 0)"
  by (simp add: script_defs process_defs example_defs ndvi_value MDKEY_def)

text \<open>
  C6 (amended): for every invocation with exactly one source file whose \<open>DEST\<close> is not
  an existing directory and is not the empty string, \<^verbatim>\<open>main\<close> passes \<open>DEST\<close> as the
  output file of that source, and the output path that \<^verbatim>\<open>process\<close> resolves is the
  literal \<open>DEST\<close>.
\<close>

theorem file_output_path:
  assumes "SOURCE a = [src]" and "\<not> os_path_isdir w (DEST a)" and "DEST a \<noteq> []"
  shows "main env w a = process env w src (LAYER a) (Some (DEST a)) None
         \<and> out_path src (Some (DEST a)) None = Inr (DEST a)"
proof -
  from assms have "main env w a = process_each env w (LAYER a) (Some (DEST a)) None [src]"
    by (simp only: main_def outfile_of_def folder_of_def if_False)
  then have "main env w a = process env w src (LAYER a) (Some (DEST a)) None"
    by (simp only: process_each_single)
  moreover from assms(3) have "out_path src (Some (DEST a)) None = Inr (DEST a)"
    by (simp add: out_path_def)
  ultimately show ?thesis by simp
qed

theorem file_output_path_witness:
  "SOURCE \<lparr>LAYER = ''NDVI'', SOURCE = [''a.map''], DEST = ''out.map'', verbose = False\<rparr>
     = [''a.map'']
   \<and> \<not> os_path_isdir disk ''out.map'' \<and> ''out.map'' \<noteq> []
   \<and> main (stub_env ndvi_capabilities) disk
       \<lparr>LAYER = ''NDVI'', SOURCE = [''a.map''], DEST = ''out.map'', verbose = False\<rparr>
     = process (stub_env ndvi_capabilities) disk ''a.map'' ''NDVI'' (Some ''out.map'') None
   \<and> out_path ''a.map'' (Some ''out.map'') None = Inr ''out.map''"
proof -
  let ?a = "\<lparr>LAYER = ''NDVI'', SOURCE = [''a.map''], DEST = ''out.map'', verbose = False\<rparr>"
  have s: "SOURCE ?a = [''a.map'']" by simp
  have d: "\<not> os_path_isdir disk (DEST ?a)" by (simp add: os_path_isdir_def disk_def)
  have n: "DEST ?a \<noteq> []" by simp
  from file_output_path [OF s d n, of "stub_env ndvi_capabilities"] d show ?thesis by simp
qed

text \<open>
  The assertions read truth values, and the empty string is false: with \<open>outFile\<close> the
  empty string and no \<open>outFolder\<close> the first assertion fails although exactly one
  argument is given (the command line reaches this with an empty \<open>DEST\<close>), and with
  \<open>outFile\<close> the empty string and an \<open>outFolder\<close> both assertions pass although both
  arguments are given.
\<close>

theorem empty_string_arguments:
  "process (stub_env ndvi_capabilities) disk ''a.map'' ''NDVI'' (Some []) None
     = (disk, Some AssertionError)
   \<and> out_path ''a.map'' (Some []) (Some ''outdir'') = Inr ''outdir/a.map''
   \<and> script (stub_env ndvi_capabilities) disk
       \<lparr>LAYER = ''NDVI'', SOURCE = [''a.map''], DEST = [], verbose = False\<rparr>
     = (disk\<lparr>stdout := [Line ''ERROR, UNEXPECTED EXCEPTION'', ExceptionText AssertionError,
                         Traceback AssertionError]\<rparr>,
        Exit 1)"
  by (simp add: script_defs process_defs example_defs)

text \<open>
  C10 (amended): \<^verbatim>\<open>process\<close> requires exactly one of \<open>outFile\<close> and \<open>outFolder\<close> to be
  true (a non-empty string): whenever both are false (\<open>None\<close> or empty) or both are true,
  it fails an assertion and leaves the files, the log and the output as they were;
  whenever exactly one is true, both assertions pass and the output path is resolved.
\<close>

theorem assertions_read_truth_values:
  "(truthy outFile = truthy outFolder \<longrightarrow>
      process env w fileName layerName outFile outFolder = (w, Some AssertionError))
   \<and> (truthy outFile \<noteq> truthy outFolder \<longrightarrow>
      out_path fileName outFile outFolder
        = Inr (if truthy outFolder
               then os_path_join (str_of outFolder) [os_path_basename fileName]
               else str_of outFile))"
  by (auto simp: process_def out_path_def)

theorem assertions_read_truth_values_witness:
  "truthy None = truthy None
   \<and> process (stub_env ndvi_capabilities) disk ''a.map'' ''NDVI'' None None
       = (disk, Some AssertionError)
   \<and> truthy (Some ''out.map'') = truthy (Some ''outdir'')
   \<and> process (stub_env ndvi_capabilities) disk ''a.map'' ''NDVI'' (Some ''out.map'')
         (Some ''outdir'')
       = (disk, Some AssertionError)
   \<and> truthy (Some ''out.map'') \<noteq> truthy None
   \<and> out_path ''a.map'' (Some ''out.map'') None = Inr ''out.map''"
  using assertions_read_truth_values
      [of None None "stub_env ndvi_capabilities" disk "''a.map''" "''NDVI''"]
    assertions_read_truth_values
      [of "Some ''out.map''" "Some ''outdir''" "stub_env ndvi_capabilities" disk "''a.map''"
          "''NDVI''"]
    assertions_read_truth_values
      [of "Some ''out.map''" None "stub_env ndvi_capabilities" disk "''a.map''" "''NDVI''"]
  by simp

section \<open>The query\<close>

text \<open>The positions listed by \<open>paths\<close> are exactly the nodes of the document.\<close>

lemma paths_from_iff:
  "p \<in> set (paths_from i ks) \<longleftrightarrow>
     (\<exists>j p'. p = (i + j) # p' \<and> j < length ks \<and> p' \<in> set (paths (ks ! j)))"
proof (induction ks arbitrary: i)
  case Nil
  then show ?case by simp
next
  case (Cons k ks)
  show ?case
  proof
    assume "p \<in> set (paths_from i (k # ks))"
    then consider "p \<in> (#) i ` set (paths k)" | "p \<in> set (paths_from (Suc i) ks)"
      by auto
    then show "\<exists>j p'. p = (i + j) # p' \<and> j < length (k # ks) \<and> p' \<in> set (paths ((k # ks) ! j))"
    proof cases
      case 1
      then obtain p' where "p = i # p'" "p' \<in> set (paths k)" by auto
      then have "p = (i + 0) # p' \<and> 0 < length (k # ks) \<and> p' \<in> set (paths ((k # ks) ! 0))"
        by simp
      then show ?thesis by blast
    next
      case 2
      with Cons.IH [of "Suc i"] obtain j p' where
        "p = (Suc i + j) # p'" "j < length ks" "p' \<in> set (paths (ks ! j))" by blast
      then have "p = (i + Suc j) # p' \<and> Suc j < length (k # ks)
          \<and> p' \<in> set (paths ((k # ks) ! Suc j))" by simp
      then show ?thesis by blast
    qed
  next
    assume "\<exists>j p'. p = (i + j) # p' \<and> j < length (k # ks) \<and> p' \<in> set (paths ((k # ks) ! j))"
    then obtain j p' where j: "p = (i + j) # p'" "j < length (k # ks)"
      "p' \<in> set (paths ((k # ks) ! j))" by blast
    show "p \<in> set (paths_from i (k # ks))"
    proof (cases j)
      case 0
      with j show ?thesis by simp
    next
      case (Suc j')
      with j have "p = (Suc i + j') # p' \<and> j' < length ks \<and> p' \<in> set (paths (ks ! j'))"
        by simp
      then have "p \<in> set (paths_from (Suc i) ks)" using Cons.IH [of "Suc i"] by blast
      then show ?thesis by simp
    qed
  qed
qed

lemma paths_iff: "p \<in> set (paths t) \<longleftrightarrow> node_at t p \<noteq> None"
proof (induction t arbitrary: p)
  case (Text s)
  then show ?case by (cases p) auto
next
  case (Elem tag atts ks)
  show ?case
  proof (cases p)
    case Nil
    then show ?thesis by simp
  next
    case (Cons j p')
    have "p \<in> set (paths (Elem tag atts ks)) \<longleftrightarrow> (j < length ks \<and> p' \<in> set (paths (ks ! j)))"
      using Cons by (simp add: paths_from_iff)
    also have "\<dots> \<longleftrightarrow> (j < length ks \<and> node_at (ks ! j) p' \<noteq> None)"
      using Elem.IH [of "ks ! j" p'] by auto
    also have "\<dots> \<longleftrightarrow> node_at (Elem tag atts ks) p \<noteq> None"
      using Cons by simp
    finally show ?thesis .
  qed
qed

lemma holds_at_path: "holds_at doc P p \<Longrightarrow> p \<in> set (paths doc)"
  by (auto simp: holds_at_def paths_iff split: option.splits)

text \<open>No position is listed twice.\<close>

lemma paths_from_head: "p \<in> set (paths_from i ks) \<Longrightarrow> \<exists>j p'. p = j # p' \<and> i \<le> j"
  by (auto simp: paths_from_iff)

lemma distinct_paths:
  "distinct (paths t)" and "distinct (paths_from i ks)"
proof (induction t and i ks rule: paths_paths_from.induct)
  case (1 s)
  then show ?case by simp
next
  case (2 t a ks)
  then show ?case by (auto dest: paths_from_head)
next
  case (3 i)
  then show ?case by simp
next
  case (4 i k ks)
  then show ?case by (auto simp: distinct_map inj_on_def dest: paths_from_head)
qed

text \<open>
  The four location steps select exactly the text nodes of the description, in document
  order.
\<close>

lemma time_extent_nodes_eq:
  "time_extent_nodes doc n = filter (extent_text doc n) (paths doc)"
  unfolding time_extent_nodes_def xpath_step_def
proof (rule filter_cong [OF refl])
  fix x
  assume "x \<in> set (paths doc)"
  let ?S1 = "filter (holds_at doc (named_layer n)) (paths doc)"
  let ?S2 = "filter (\<lambda>q. holds_at doc (is_elem ''Layer'') q
               \<and> (\<exists>m\<in>set ?S1. ancestor_or_self_axis m q)) (paths doc)"
  let ?S3 = "filter (\<lambda>e. holds_at doc time_extent e \<and> (\<exists>m\<in>set ?S2. child_axis m e)) (paths doc)"
  have s2: "q \<in> set ?S2 \<longleftrightarrow>
      holds_at doc (is_elem ''Layer'') q
      \<and> (\<exists>r \<in> set (paths doc). prefix q r \<and> holds_at doc (named_layer n) r)" for q
    by (auto simp: ancestor_or_self_axis_def dest: holds_at_path)
  have s3: "e \<in> set ?S3 \<longleftrightarrow>
      e \<noteq> [] \<and> holds_at doc time_extent e \<and> butlast e \<in> set ?S2" for e
    by (auto simp: child_axis_def dest: holds_at_path)
  have "(holds_at doc is_text x \<and> (\<exists>m\<in>set ?S3. child_axis m x))
      \<longleftrightarrow> (holds_at doc is_text x \<and> x \<noteq> [] \<and> butlast x \<in> set ?S3)"
    by (auto simp: child_axis_def)
  also have "\<dots> \<longleftrightarrow> extent_text doc n x"
  proof (cases x rule: rev_cases)
    case Nil
    then show ?thesis by (simp add: extent_text_def)
  next
    case (snoc ys a)
    then show ?thesis
      unfolding s3 s2 extent_text_def by (cases ys rule: rev_cases) (auto simp: butlast_append)
  qed
  finally show "(holds_at doc is_text x \<and> (\<exists>m\<in>set ?S3. child_axis m x))
      \<longleftrightarrow> extent_text doc n x" .
qed

lemma extent_text_split:
  assumes "extent_text doc n x"
  obtains q i j r s where "x = q @ [i, j]" "node_at doc x = Some (Text s)"
    "holds_at doc time_extent (q @ [i])" "holds_at doc (is_elem ''Layer'') q"
    "prefix q r" "holds_at doc (named_layer n) r"
proof -
  from assms have len: "2 \<le> length x" by (simp add: extent_text_def)
  then obtain ys j where x: "x = ys @ [j]" by (cases x rule: rev_cases) auto
  with len obtain q i where ys: "ys = q @ [i]" by (cases ys rule: rev_cases) auto
  from x ys have xq: "x = q @ [i, j]" by simp
  then have b: "butlast x = q @ [i]" "butlast (butlast x) = q" by (simp_all add: butlast_append)
  from assms have "holds_at doc is_text x" by (simp add: extent_text_def)
  then obtain s where s: "node_at doc x = Some (Text s)"
    by (auto simp: holds_at_def split: option.splits elim: is_text.elims)
  from assms b obtain r where "prefix q r" "holds_at doc (named_layer n) r"
    by (auto simp: extent_text_def)
  moreover from assms b have "holds_at doc time_extent (q @ [i])"
    "holds_at doc (is_elem ''Layer'') q" by (simp_all add: extent_text_def)
  ultimately show thesis using xq s that by blast
qed

text \<open>
  An outer layer with an \<open>Extent\<close> named \<open>time\<close> that has no text, around the requested
  layer, which has no \<open>Extent\<close> of its own: the query matches nothing and the subscript
  raises \<open>IndexError\<close>.
\<close>

theorem empty_ancestor_extent_raises:
  "holds_at empty_extent_capabilities (named_layer ''NDVI'') [1]
   \<and> \<not> (\<exists>e \<in> set (paths empty_extent_capabilities).
          own_time_extent empty_extent_capabilities ''NDVI'' e)
   \<and> strict_prefix [] [1::nat]
   \<and> holds_at empty_extent_capabilities (is_elem ''Layer'') []
   \<and> holds_at empty_extent_capabilities time_extent [0]
   \<and> strTimeExtent (stub_env empty_extent_capabilities) empty_extent_capabilities ''NDVI''
       = Inl IndexError"
proof -
  have "holds_at empty_extent_capabilities (named_layer ''NDVI'') [1]" by code_simp
  moreover have "\<not> (\<exists>e \<in> set (paths empty_extent_capabilities).
          own_time_extent empty_extent_capabilities ''NDVI'' e)" by code_simp
  moreover have "holds_at empty_extent_capabilities (is_elem ''Layer'') []" by code_simp
  moreover have "holds_at empty_extent_capabilities time_extent [0]" by code_simp
  ultimately show ?thesis by (simp add: strTimeExtent_plain empty_extent_nodes)
qed

text \<open>
  C5 (amended): for every capabilities document and every requested name without an
  apostrophe, if no layer with the requested name has an \<open>Extent\<close> element named \<open>time\<close>
  of its own and some ancestor layer of such a layer has one with a text node, then the
  lookup returns the text, with every \<^verbatim>\<open>-\<close> removed, of an \<open>Extent\<close> named \<open>time\<close> of an
  ancestor layer of a layer with the requested name; among all text nodes of such
  extents it is the first in document order.
\<close>

theorem cascading_lookup:
  assumes quote: "CHR 0x27 \<notin> set n"
    and requested: "holds_at doc (named_layer n) r"
    and own: "\<not> (\<exists>e \<in> set (paths doc). own_time_extent doc n e)"
    and ancestor: "strict_prefix q r" "holds_at doc (is_elem ''Layer'') q"
    and extent: "holds_at doc time_extent (q @ [i])"
    and content: "node_at doc (q @ [i, j]) = Some (Text s)"
  shows "\<exists>q' r' i' j' s' before after.
           strTimeExtent env doc n = Inr (purge s')
         \<and> node_at doc (q' @ [i', j']) = Some (Text s')
         \<and> holds_at doc time_extent (q' @ [i'])
         \<and> holds_at doc (is_elem ''Layer'') q'
         \<and> strict_prefix q' r' \<and> holds_at doc (named_layer n) r'
         \<and> paths doc = before @ (q' @ [i', j']) # after
         \<and> \<not> (\<exists>x \<in> set before. extent_text doc n x)"
proof -
  have t: "holds_at doc is_text (q @ [i, j])" using content by (simp add: holds_at_def)
  have "prefix q r" using ancestor(1) by (simp add: strict_prefix_def)
  then have "extent_text doc n (q @ [i, j])"
    using t extent ancestor(2) requested holds_at_path [OF requested]
    by (auto simp: extent_text_def butlast_append)
  moreover have "q @ [i, j] \<in> set (paths doc)" using t by (rule holds_at_path)
  ultimately have "filter (extent_text doc n) (paths doc) \<noteq> []"
    by (auto simp: filter_empty_conv)
  then obtain x xs where f: "filter (extent_text doc n) (paths doc) = x # xs"
    by (cases "filter (extent_text doc n) (paths doc)") auto
  then obtain before after where p: "paths doc = before @ x # after"
    and first: "\<forall>u \<in> set before. \<not> extent_text doc n u" and x: "extent_text doc n x"
    by (auto simp: filter_eq_Cons_iff)
  from x obtain q' i' j' r' s' where xq: "x = q' @ [i', j']"
    and s': "node_at doc x = Some (Text s')"
    and e': "holds_at doc time_extent (q' @ [i'])" and l': "holds_at doc (is_elem ''Layer'') q'"
    and pre: "prefix q' r'" and r': "holds_at doc (named_layer n) r'"
    by (rule extent_text_split)
  have "q' \<noteq> r'"
  proof
    assume "q' = r'"
    with e' r' have "own_time_extent doc n (q' @ [i'])" by (simp add: own_time_extent_def)
    moreover have "q' @ [i'] \<in> set (paths doc)" using e' by (rule holds_at_path)
    ultimately show False using own by blast
  qed
  with pre have strict: "strict_prefix q' r'" by (simp add: strict_prefix_def)
  have "strTimeExtent env doc n = Inr (purge s')"
    using quote f s' by (simp add: strTimeExtent_plain time_extent_nodes_eq text_at_def)
  with s' e' l' strict r' p first xq show ?thesis by blast
qed

theorem cascading_lookup_witness:
  "CHR 0x27 \<notin> set ''NDVI''
   \<and> holds_at cascade_capabilities (named_layer ''NDVI'') [1]
   \<and> \<not> (\<exists>e \<in> set (paths cascade_capabilities). own_time_extent cascade_capabilities ''NDVI'' e)
   \<and> strict_prefix [] [1::nat]
   \<and> holds_at cascade_capabilities (is_elem ''Layer'') []
   \<and> holds_at cascade_capabilities time_extent [2]
   \<and> node_at cascade_capabilities [2, 0] = Some (Text ''2000-02-18,2000-03-06'')
   \<and> strTimeExtent (stub_env cascade_capabilities) cascade_capabilities ''NDVI''
       = Inr ''20000218,20000306''"
proof -
  have h1: "CHR 0x27 \<notin> set ''NDVI''" by simp
  have h2: "holds_at cascade_capabilities (named_layer ''NDVI'') [1]" by code_simp
  have h3: "\<not> (\<exists>e \<in> set (paths cascade_capabilities).
              own_time_extent cascade_capabilities ''NDVI'' e)" by code_simp
  have h4: "strict_prefix [] [1::nat]" by simp
  have h5: "holds_at cascade_capabilities (is_elem ''Layer'') []" by code_simp
  have h6: "holds_at cascade_capabilities time_extent ([] @ [2])" by code_simp
  have h7: "node_at cascade_capabilities ([] @ [2, 0]) = Some (Text ''2000-02-18,2000-03-06'')"
    by (simp add: cascade_capabilities_def)
  from cascading_lookup [OF h1 h2 h3 h4 h5 h6 h7, of "stub_env cascade_capabilities"]
  obtain s' where "strTimeExtent (stub_env cascade_capabilities) cascade_capabilities ''NDVI''
      = Inr (purge s')" by blast
  with h1 h2 h3 h4 h5 h6 h7 cascade_value show ?thesis by simp
qed

section \<open>\<^verbatim>\<open>process\<close>\<close>

text \<open>
  \<^verbatim>\<open>getLayerByName\<close> answers with a layer of that name or with \<open>None\<close>, never with the
  type object \<^verbatim>\<open>types.NoneType\<close>: the comparison of line 181 is false for every mapfile
  and every name.
\<close>

lemma getLayerByName_LayerRef:
  "getLayerByName m n = LayerRef i \<Longrightarrow> i < length (layers m) \<and> name (layers m ! i) = n"
  by (auto simp: getLayerByName_def find_Some_iff split: option.splits)

lemma getLayerByName_PyNone:
  "getLayerByName m n = PyNone \<longleftrightarrow> n \<notin> name ` set (layers m)"
proof -
  have "getLayerByName m n = PyNone \<longleftrightarrow>
      find (\<lambda>i. name (layers m ! i) = n) [0..<length (layers m)] = None"
    by (simp add: getLayerByName_def split: option.splits)
  also have "\<dots> \<longleftrightarrow> (\<forall>i < length (layers m). name (layers m ! i) \<noteq> n)"
    by (auto simp: find_None_iff)
  also have "\<dots> \<longleftrightarrow> n \<notin> name ` set (layers m)"
    by (metis (no_types, lifting) image_iff in_set_conv_nth)
  finally show ?thesis .
qed

lemma getLayerByName_not_NoneType: "\<not> py_eq (getLayerByName m n) NoneType"
  by (simp add: getLayerByName_def py_eq_def split: option.splits)

text \<open>What a call of \<^verbatim>\<open>updateWMStimeExtent\<close> that returns has done.\<close>

lemma update_returns:
  assumes "i < length (layers m)"
    and "updateWMStimeExtent env m (LayerRef i) lg = ((m', lg'), None)"
  shows "\<exists>doc v.
           capabilities env
             (connection (layers m ! i) @ ''SERVICE=WMS&VERSION=1.1.1&REQUEST=GetCapabilities'')
             = Inr doc
         \<and> strTimeExtent env doc (name (layers m ! i)) = Inr v
         \<and> ipython_embed env = None
         \<and> m' = setMetaData m i MDKEY v \<and> lg' = lg"
  using assms
  by (auto simp: updateWMStimeExtent_def deref_def format_request_url format_error_message
      try_block_def split: sum.splits option.splits prod.splits)

text \<open>
  When the call of \<^verbatim>\<open>updateWMStimeExtent\<close> returns (the document was fetched, the lookup
  found a text, and the interactive shell of lines 141 and 142 returned), \<^verbatim>\<open>process\<close>
  saves to the output path the mapfile it opened with exactly one change, the entry
  \<^verbatim>\<open>wms_timeextent\<close> of the requested layer set to the normalized time extent; the other
  entries of that layer, its name and connection, the other layers and the
  mapfile-level settings are as they were, and nothing is logged.
\<close>

theorem successful_fetch_saves_one_entry:
  assumes out: "out_path fileName outFile outFolder = Inr out"
    and src: "files w fileName = Some original"
    and layer: "getLayerByName original layerName = LayerRef i"
    and fetch: "updateWMStimeExtent env original (LayerRef i) (log w) = ((m, lg), None)"
  shows "\<exists>doc v.
           capabilities env
             (connection (layers original ! i)
              @ ''SERVICE=WMS&VERSION=1.1.1&REQUEST=GetCapabilities'') = Inr doc
         \<and> strTimeExtent env doc layerName = Inr v
         \<and> ipython_embed env = None
         \<and> m = original\<lparr>layers := (layers original)
                  [i := (layers original ! i)
                     \<lparr>metadata := (metadata (layers original ! i))(MDKEY \<mapsto> v)\<rparr>]\<rparr>
         \<and> process env w fileName layerName outFile outFolder
             = (w\<lparr>files := (files w)(out \<mapsto> m)\<rparr>, None)"
proof -
  from layer have i: "i < length (layers original)" and n: "name (layers original ! i) = layerName"
    by (simp_all add: getLayerByName_LayerRef)
  from update_returns [OF i fetch] n obtain doc v where
    d: "capabilities env
          (connection (layers original ! i)
           @ ''SERVICE=WMS&VERSION=1.1.1&REQUEST=GetCapabilities'') = Inr doc"
    and v: "strTimeExtent env doc layerName = Inr v"
    and e: "ipython_embed env = None"
    and m: "m = setMetaData original i MDKEY v" and lg: "lg = log w"
    by auto
  have "process env w fileName layerName outFile outFolder
      = (w\<lparr>files := (files w)(out \<mapsto> m)\<rparr>, None)"
    using out src layer fetch lg
    by (simp add: process_def mapscript_mapObj_def py_eq_def save_def)
  with d v e m show ?thesis by (auto simp: setMetaData_def)
qed

theorem successful_fetch_saves_one_entry_witness:
  "out_path ''a.map'' (Some ''out.map'') None = Inr ''out.map''
   \<and> files disk ''a.map'' = Some a_map
   \<and> getLayerByName a_map ''NDVI'' = LayerRef 1
   \<and> updateWMStimeExtent (stub_env ndvi_capabilities) a_map (LayerRef 1) (log disk)
       = ((a_map\<lparr>layers := [roads_layer,
                    ndvi_layer\<lparr>metadata := [''wms_timeextent'' \<mapsto> ''20000218,20000306'']\<rparr>]\<rparr>,
           []), None)
   \<and> process (stub_env ndvi_capabilities) disk ''a.map'' ''NDVI'' (Some ''out.map'') None
       = (disk\<lparr>files := (files disk)(''out.map'' \<mapsto>
            a_map\<lparr>layers := [roads_layer,
                    ndvi_layer\<lparr>metadata := [''wms_timeextent'' \<mapsto> ''20000218,20000306'']\<rparr>]\<rparr>)\<rparr>,
          None)"
proof -
  have h1: "out_path ''a.map'' (Some ''out.map'') None = Inr ''out.map''"
    by (simp add: out_path_def)
  have h2: "files disk ''a.map'' = Some a_map" by (simp add: disk_def)
  have h3: "getLayerByName a_map ''NDVI'' = LayerRef 1"
    by (simp add: getLayerByName_def a_map_def roads_layer_def ndvi_layer_def)
  have h4: "updateWMStimeExtent (stub_env ndvi_capabilities) a_map (LayerRef 1) (log disk)
       = ((a_map\<lparr>layers := [roads_layer,
                    ndvi_layer\<lparr>metadata := [''wms_timeextent'' \<mapsto> ''20000218,20000306'']\<rparr>]\<rparr>,
           []), None)"
    by (simp add: updateWMStimeExtent_def deref_def format_request_url try_block_def
        setMetaData_def MDKEY_def ndvi_value example_defs)
  from successful_fetch_saves_one_entry [OF h1 h2 h3 h4]
  have "process (stub_env ndvi_capabilities) disk ''a.map'' ''NDVI'' (Some ''out.map'') None
       = (disk\<lparr>files := (files disk)(''out.map'' \<mapsto>
            a_map\<lparr>layers := [roads_layer,
                    ndvi_layer\<lparr>metadata := [''wms_timeextent'' \<mapsto> ''20000218,20000306'']\<rparr>]\<rparr>)\<rparr>,
          None)"
    by blast
  with h1 h2 h3 h4 show ?thesis by simp
qed

text \<open>
  When the interactive shell raises, the exception passes the bare \<^verbatim>\<open>except\<close> and leaves
  \<^verbatim>\<open>process\<close> before the save, whatever the other inputs are: no file is written.
\<close>

lemma update_raises_with_shell:
  assumes "ipython_embed env = Some e"
  shows "snd (updateWMStimeExtent env m layer lg) \<noteq> None"
  using assms
  by (auto simp: updateWMStimeExtent_def format_request_url format_error_message try_block_def
      split: sum.splits option.splits prod.splits)

lemma shell_exception_prevents_save:
  assumes "ipython_embed env = Some e"
  shows "files (fst (process env w fileName layerName outFile outFolder)) = files w
         \<and> snd (process env w fileName layerName outFile outFolder) \<noteq> None"
proof (cases "out_path fileName outFile outFolder")
  case (Inl x)
  then show ?thesis by (simp add: process_def)
next
  case (Inr out)
  show ?thesis
  proof (cases "files w fileName")
    case None
    with Inr show ?thesis by (simp add: process_def mapscript_mapObj_def)
  next
    case (Some original)
    obtain m lg x where u:
      "updateWMStimeExtent env original (getLayerByName original layerName) (log w) = ((m, lg), x)"
      by (metis surj_pair)
    with update_raises_with_shell [OF assms, of original "getLayerByName original layerName" "log w"]
    obtain x' where x: "x = Some x'" by auto
    with Inr Some u show ?thesis
      by (cases x')
        (simp_all add: process_def mapscript_mapObj_def getLayerByName_not_NoneType
          format_time_warning)
  qed
qed

text \<open>Whenever \<^verbatim>\<open>process\<close> returns, it has written exactly the file at the resolved path.\<close>

lemma process_saves_at_out_path:
  assumes "process env w fileName layerName outFile outFolder = (w', None)"
  shows "\<exists>out m. out_path fileName outFile outFolder = Inr out
           \<and> files w' = (files w)(out \<mapsto> m)"
proof (cases "out_path fileName outFile outFolder")
  case (Inl x)
  with assms show ?thesis by (simp add: process_def)
next
  case (Inr out)
  show ?thesis
  proof (cases "files w fileName")
    case None
    with Inr assms show ?thesis by (simp add: process_def mapscript_mapObj_def)
  next
    case (Some original)
    obtain m lg x where u:
      "updateWMStimeExtent env original (getLayerByName original layerName) (log w) = ((m, lg), x)"
      by (metis surj_pair)
    show ?thesis
    proof (cases x)
      case None
      with Inr Some u assms show ?thesis
        by (auto simp: process_def mapscript_mapObj_def getLayerByName_not_NoneType save_def)
    next
      case (Some x')
      with Inr \<open>files w fileName = Some original\<close> u assms show ?thesis
        by (cases x')
          (simp_all add: process_def mapscript_mapObj_def getLayerByName_not_NoneType
            format_time_warning)
    qed
  qed
qed

text \<open>
  C3, evaluated: the specification's example (layer \<open>NDVI\<close>, extent text
  \<^verbatim>\<open>2000-02-18,2000-03-06\<close>) on a machine without IPython. The lookup succeeds with
  \<^verbatim>\<open>20000218,20000306\<close> and the entry is set on the layer in memory, but
  \<^verbatim>\<open>import IPython\<close> on line 141 raises \<open>ImportError\<close> inside the \<^verbatim>\<open>try\<close>: an error is
  logged, the exception leaves \<^verbatim>\<open>process\<close>, \<^verbatim>\<open>out.map\<close> is not written, and the run ends
  with status 1.
\<close>

theorem leftover_shell_prevents_save:
  "strTimeExtent (no_ipython_env ndvi_capabilities) ndvi_capabilities ''NDVI''
     = Inr ''20000218,20000306''
   \<and> process (no_ipython_env ndvi_capabilities) disk ''a.map'' ''NDVI'' (Some ''out.map'') None
     = (disk\<lparr>log := [(ERROR,
            ''Unable to locate dates in capabilities document at: http://stub/wms?'')]\<rparr>,
        Some ImportError)
   \<and> script (no_ipython_env ndvi_capabilities) disk
       \<lparr>LAYER = ''NDVI'', SOURCE = [''a.map''], DEST = ''out.map'', verbose = False\<rparr>
     = (disk\<lparr>log := [(ERROR,
            ''Unable to locate dates in capabilities document at: http://stub/wms?'')],
             stdout := [Line ''ERROR, UNEXPECTED EXCEPTION'', ExceptionText ImportError,
                        Traceback ImportError]\<rparr>,
        Exit 1)"
  by (simp add: script_defs process_defs example_defs no_ipython_env_def ndvi_value)

text \<open>
  A mapfile without the requested layer: \<^verbatim>\<open>layer\<close> is \<open>None\<close>, the comparison with
  \<^verbatim>\<open>types.NoneType\<close> is false, and \<^verbatim>\<open>layer.connection\<close> raises \<open>AttributeError\<close>, which
  the handler for \<open>MapServerError\<close> does not catch.
\<close>

lemma missing_layer_attribute_error:
  assumes "out_path fileName outFile outFolder = Inr out"
    and "files w fileName = Some original"
    and "layerName \<notin> name ` set (layers original)"
  shows "process env w fileName layerName outFile outFolder = (w, Some AttributeError)"
proof -
  from assms(3) have "getLayerByName original layerName = PyNone"
    by (simp add: getLayerByName_PyNone)
  with assms(1,2) show ?thesis
    by (simp add: process_def mapscript_mapObj_def py_eq_def updateWMStimeExtent_def deref_def)
qed

text \<open>
  A capabilities document in which the query matches nothing: the subscript raises
  \<open>IndexError\<close>, the bare \<^verbatim>\<open>except\<close> logs an error and raises it again, and it leaves
  \<^verbatim>\<open>process\<close> before the save.
\<close>

lemma missing_extent_index_error:
  assumes "out_path fileName outFile outFolder = Inr out"
    and "files w fileName = Some original"
    and "getLayerByName original layerName = LayerRef i"
    and "capabilities env
           (connection (layers original ! i) @ ''SERVICE=WMS&VERSION=1.1.1&REQUEST=GetCapabilities'')
           = Inr doc"
    and "CHR 0x27 \<notin> set layerName"
    and "time_extent_nodes doc layerName = []"
  shows "process env w fileName layerName outFile outFolder
           = (w\<lparr>log := log w @ [(ERROR, ''Unable to locate dates in capabilities document at: ''
                                         @ connection (layers original ! i))]\<rparr>,
              Some IndexError)"
proof -
  from assms(3) have i: "i < length (layers original)" "name (layers original ! i) = layerName"
    by (simp_all add: getLayerByName_LayerRef)
  have "strTimeExtent env doc layerName = Inl IndexError"
    using assms(5,6) by (simp add: strTimeExtent_plain)
  with i assms(4) have "updateWMStimeExtent env original (LayerRef i) (log w)
      = ((original, log w @ [(ERROR, ''Unable to locate dates in capabilities document at: ''
                                         @ connection (layers original ! i))]), Some IndexError)"
    by (simp add: updateWMStimeExtent_def deref_def format_request_url format_error_message
        try_block_def)
  with assms(1,2,3) show ?thesis
    by (simp add: process_def mapscript_mapObj_def py_eq_def)
qed

text \<open>Whatever the inputs, \<^verbatim>\<open>process\<close> adds no warning to the log.\<close>

lemma process_never_warns:
  assumes "process env w fileName layerName outFile outFolder = (w', r)"
  shows "\<exists>extra. log w' = log w @ extra \<and> WARNING \<notin> fst ` set extra"
proof (cases "out_path fileName outFile outFolder")
  case (Inl e)
  with assms show ?thesis by (auto simp: process_def)
next
  case (Inr out)
  show ?thesis
  proof (cases "files w fileName")
    case None
    with Inr assms show ?thesis by (auto simp: process_def mapscript_mapObj_def)
  next
    case (Some original)
    obtain m lg x where u:
      "updateWMStimeExtent env original (getLayerByName original layerName) (log w) = ((m, lg), x)"
      by (metis surj_pair)
    have lg: "\<exists>extra. lg = log w @ extra \<and> WARNING \<notin> fst ` set extra"
      using u
      by (auto simp: updateWMStimeExtent_def format_request_url format_error_message
          split: sum.splits option.splits prod.splits)
    show ?thesis
    proof (cases x)
      case None
      with Inr Some u assms lg show ?thesis
        by (auto simp: process_def mapscript_mapObj_def getLayerByName_not_NoneType save_def)
    next
      case (Some e)
      with Inr \<open>files w fileName = Some original\<close> u assms lg show ?thesis
        by (cases e)
          (auto simp: process_def mapscript_mapObj_def getLayerByName_not_NoneType
            format_time_warning)
    qed
  qed
qed

text \<open>
  C1, evaluated: \<^verbatim>\<open>r.map\<close> has no layer \<open>NDVI\<close>. \<^verbatim>\<open>process\<close> raises \<open>AttributeError\<close>
  and logs nothing; a run over \<^verbatim>\<open>r.map\<close> and \<^verbatim>\<open>a.map\<close> ends with status 1 after the
  first file, and \<^verbatim>\<open>a.map\<close>, which has the layer, is never processed.
\<close>

theorem missing_layer_aborts_run:
  "process (stub_env ndvi_capabilities) disk ''r.map'' ''NDVI'' (Some ''out.map'') None
     = (disk, Some AttributeError)
   \<and> script (stub_env ndvi_capabilities) disk
       \<lparr>LAYER = ''NDVI'', SOURCE = [''r.map'', ''a.map''], DEST = ''outdir'', verbose = False\<rparr>
     = (disk\<lparr>stdout := [Line ''ERROR, UNEXPECTED EXCEPTION'', ExceptionText AttributeError,
                         Traceback AttributeError]\<rparr>,
        Exit 1)"
  by (simp add: script_defs process_defs example_defs)

text \<open>
  C2, evaluated: the capabilities document has no \<open>Extent\<close> at all. \<^verbatim>\<open>process\<close> raises
  \<open>IndexError\<close>, the log holds one error and no warning, and no file is written; the
  run ends with status 1.
\<close>

theorem missing_extent_aborts_run:
  "process (stub_env no_extent_capabilities) disk ''a.map'' ''NDVI'' (Some ''out.map'') None
     = (disk\<lparr>log := [(ERROR,
            ''Unable to locate dates in capabilities document at: http://stub/wms?'')]\<rparr>,
        Some IndexError)
   \<and> script (stub_env no_extent_capabilities) disk
       \<lparr>LAYER = ''NDVI'', SOURCE = [''a.map''], DEST = ''out.map'', verbose = False\<rparr>
     = (disk\<lparr>log := [(ERROR,
            ''Unable to locate dates in capabilities document at: http://stub/wms?'')],
             stdout := [Line ''ERROR, UNEXPECTED EXCEPTION'', ExceptionText IndexError,
                        Traceback IndexError]\<rparr>,
        Exit 1)"
  by (simp add: script_defs process_defs example_defs no_extent_value)

section \<open>The top level\<close>

text \<open>
  C7: for every invocation with more than one source file whose \<open>DEST\<close> is not an
  existing directory, the run prints the usage text and ends with the exit status
  \<^verbatim>\<open>os.EX_USAGE\<close> (64); no source file is processed, no file is written, nothing is
  logged, and no exception is left uncaught.
\<close>

theorem usage_error_exit:
  assumes "1 < length (SOURCE a)" and "\<not> os_path_isdir w (DEST a)"
  shows "script env w a = (w\<lparr>stdout := stdout w @ [Usage]\<rparr>, Exit EX_USAGE) \<and> EX_USAGE = 64"
  using assms by (simp add: script_def toplevel_try_def EX_USAGE_def)

theorem usage_error_exit_witness:
  "1 < length (SOURCE \<lparr>LAYER = ''NDVI'', SOURCE = [''a.map'', ''r.map''], DEST = ''out.map'',
                        verbose = False\<rparr>)
   \<and> \<not> os_path_isdir disk ''out.map''
   \<and> script (stub_env ndvi_capabilities) disk
       \<lparr>LAYER = ''NDVI'', SOURCE = [''a.map'', ''r.map''], DEST = ''out.map'', verbose = False\<rparr>
     = (disk\<lparr>stdout := [Usage]\<rparr>, Exit 64)"
proof -
  let ?a = "\<lparr>LAYER = ''NDVI'', SOURCE = [''a.map'', ''r.map''], DEST = ''out.map'',
             verbose = False\<rparr>"
  have h1: "1 < length (SOURCE ?a)" by simp
  have h2: "\<not> os_path_isdir disk (DEST ?a)" by (simp add: os_path_isdir_def disk_def)
  have "stdout disk = []" by (simp add: disk_def)
  with usage_error_exit [OF h1 h2, of "stub_env ndvi_capabilities"] h1 h2 show ?thesis
    by (simp add: EX_USAGE_def)
qed

end
